theory Spec2Isabelle
  imports Complex_Main "HOL-Library.Word" "HOL-Library.AList"
begin

section \<open>Python values, objects and exceptions\<close>

text \<open>
  The program is one Python module, \<^verbatim>\<open>vit.py\<close>. Its classes keep their state in
  instance attributes, and two of its methods read attributes that no constructor
  assigns. An object is therefore modelled by its attribute dictionary, an association
  list from attribute names to values in assignment order, and reading an attribute
  that is absent is the error value \<open>AttributeError\<close>, as in Python.
  Exceptions are values of a sum type: \<open>Inl\<close> carries the exception.
  Tensors of floating-point numbers are idealised as nested lists of reals.
\<close>

datatype error =
    AttributeError string
  | ValueError string
  | TypeError string
  | ZeroDivisionError string

datatype layer =
    Reshape int
  | Dense int
  | LayerNormalization real

datatype pyval =
    BoolV bool
  | IntV int
  | FloatV real
  | LayerV layer

type_synonym pyobj = "(string \<times> pyval) list"

definition res_bind :: "error + 'a \<Rightarrow> ('a \<Rightarrow> error + 'b) \<Rightarrow> error + 'b" where
  "res_bind m f = (case m of Inl e \<Rightarrow> Inl e | Inr x \<Rightarrow> f x)"

definition getattr :: "pyobj \<Rightarrow> string \<Rightarrow> error + pyval" where
  "getattr self name =
     (case map_of self name of None \<Rightarrow> Inl (AttributeError name) | Some v \<Rightarrow> Inr v)"

text \<open>Reading an attribute where the code uses it as a number, a truth value or a layer.\<close>

fun as_num :: "pyval \<Rightarrow> error + real" where
  "as_num (IntV i) = Inr (of_int i)"
| "as_num (FloatV r) = Inr r"
| "as_num (BoolV b) = Inr (of_bool b)"
| "as_num (LayerV l) = Inl (TypeError ''unsupported operand type'')"

fun as_int :: "pyval \<Rightarrow> error + int" where
  "as_int (IntV i) = Inr i"
| "as_int (BoolV b) = Inr (of_bool b)"
| "as_int (FloatV r) = Inl (TypeError ''expected an integer'')"
| "as_int (LayerV l) = Inl (TypeError ''expected an integer'')"

fun as_bool :: "pyval \<Rightarrow> bool" where
  "as_bool (BoolV b) = b"
| "as_bool (IntV i) = (i \<noteq> 0)"
| "as_bool (FloatV r) = (r \<noteq> 0)"
| "as_bool (LayerV l) = True"

fun as_layer :: "pyval \<Rightarrow> error + layer" where
  "as_layer (LayerV l) = Inr l"
| "as_layer (BoolV b) = Inl (TypeError ''object is not callable'')"
| "as_layer (IntV i) = Inl (TypeError ''object is not callable'')"
| "as_layer (FloatV r) = Inl (TypeError ''object is not callable'')"

definition getnum :: "pyobj \<Rightarrow> string \<Rightarrow> error + real" where
  "getnum self name = res_bind (getattr self name) as_num"

definition getint :: "pyobj \<Rightarrow> string \<Rightarrow> error + int" where
  "getint self name = res_bind (getattr self name) as_int"

definition getbool :: "pyobj \<Rightarrow> string \<Rightarrow> error + bool" where
  "getbool self name = res_bind (getattr self name) (\<lambda>v. Inr (as_bool v))"

definition getlayer :: "pyobj \<Rightarrow> string \<Rightarrow> error + layer" where
  "getlayer self name = res_bind (getattr self name) as_layer"

section \<open>The warmup-cosine learning-rate schedule\<close>

text \<open>
  \<^verbatim>\<open>warmupcosine.__init__\<close> (lines 214 to 220) assigns five attributes and raises
  nothing. The step counts are Python integers, the rates floats.
\<close>

definition warmupcosine_init :: "real \<Rightarrow> int \<Rightarrow> real \<Rightarrow> int \<Rightarrow> error + pyobj" where
  "warmupcosine_init learning_rate_base total_steps warmup_learning_rate warmup_steps =
     Inr [(''learning_rate_base'', FloatV learning_rate_base),
          (''total_steps'', IntV total_steps),
          (''warmup_learning_rate'', FloatV warmup_learning_rate),
          (''warmup_steps'', IntV warmup_steps),
          (''pi'', FloatV pi)]"

text \<open>
  \<^verbatim>\<open>warmupcosine.__call__\<close> (lines 222 to 235). Both validations are here, and the
  last line reads \<^verbatim>\<open>self.total_Steps\<close>. Dividing a tensor by \<^verbatim>\<open>float(0)\<close> raises
  nothing in the tensor runtime, so the quotient of line 226 has no error branch.
\<close>

definition warmupcosine_call :: "pyobj \<Rightarrow> int \<Rightarrow> error + real" where
  "warmupcosine_call self step =
     res_bind (getnum self ''total_steps'') (\<lambda>total_steps.
     res_bind (getnum self ''warmup_steps'') (\<lambda>warmup_steps.
     if total_steps < warmup_steps
     then Inl (ValueError ''Total Steps must be larger or equal to warmup steps'')
     else
     res_bind (getnum self ''pi'') (\<lambda>pi_const.
     let cos_annealed_lr =
           cos (pi_const * (of_int step - warmup_steps) / (total_steps - warmup_steps)) in
     res_bind (getnum self ''learning_rate_base'') (\<lambda>learning_rate_base.
     let learning_rate = 0.5 * learning_rate_base * (1 + cos_annealed_lr) in
     res_bind
       (if warmup_steps > 0
        then res_bind (getnum self ''warmup_learning_rate'') (\<lambda>warmup_learning_rate.
             if learning_rate_base < warmup_learning_rate
             then Inl (ValueError ''Base learning rate must be larger than warmup learning rate'')
             else
               let slope = (learning_rate_base - warmup_learning_rate) / warmup_steps;
                   warmup_rate = slope * of_int step + warmup_learning_rate
               in Inr (if of_int step < warmup_steps then warmup_rate else learning_rate))
        else Inr learning_rate) (\<lambda>learning_rate.
     res_bind (getnum self ''total_Steps'') (\<lambda>total_Steps.
     Inr (if of_int step > total_Steps then 0 else learning_rate)))))))"

section \<open>The shifted-patch tokenizer\<close>

text \<open>
  An image is a height by width by channels array of reals. Every operation of the
  tokenizer treats the images of a batch independently, so the model is per image.
\<close>

type_synonym image = "real list list list"

definition layer_norm_eps :: real where
  "layer_norm_eps = 1 / 1000000"

text \<open>
  \<^verbatim>\<open>shiftedpatch.__init__\<close> (lines 72 to 86). The half patch size is stored under
  the name \<^verbatim>\<open>haff_patch\<close> (line 83); \<open>//\<close> is floor division.
\<close>

definition shiftedpatch_init :: "int \<Rightarrow> int \<Rightarrow> int \<Rightarrow> int \<Rightarrow> bool \<Rightarrow> error + pyobj" where
  "shiftedpatch_init image_size patch_size num_patches projection_dim vanilla =
     Inr [(''vanilla'', BoolV vanilla),
          (''image_size'', IntV image_size),
          (''patch_size'', IntV patch_size),
          (''haff_patch'', IntV (patch_size div 2)),
          (''flatten_patches'', LayerV (Reshape num_patches)),
          (''projection'', LayerV (Dense projection_dim)),
          (''layer_norm'', LayerV (LayerNormalization layer_norm_eps))]"

definition image_height :: "image \<Rightarrow> int" where
  "image_height img = int (length img)"

definition image_width :: "image \<Rightarrow> int" where
  "image_width img = (case img of [] \<Rightarrow> 0 | row # _ \<Rightarrow> int (length row))"

definition image_channels :: "image \<Rightarrow> nat" where
  "image_channels img =
     (case img of [] \<Rightarrow> 0 | row # _ \<Rightarrow> (case row of [] \<Rightarrow> 0 | px # _ \<Rightarrow> length px))"

text \<open>
  Modelled from the spec: the two image operations that \<^verbatim>\<open>crop_shift_pad\<close> calls
  belong to the tensor runtime and are not part of the source. Cropping keeps the
  window of the target size at the offset; padding surrounds the image with zero pixels
  up to the target size (section 4.1). Both reject a window that does not fit.
\<close>

definition crop_to_bounding_box :: "image \<Rightarrow> int \<Rightarrow> int \<Rightarrow> int \<Rightarrow> int \<Rightarrow> error + image" where
  "crop_to_bounding_box img offset_height offset_width target_height target_width =
     (if offset_height < 0 \<or> offset_width < 0 \<or> target_height \<le> 0 \<or> target_width \<le> 0
         \<or> image_width img < target_width + offset_width
         \<or> image_height img < target_height + offset_height
      then Inl (ValueError ''crop window outside the image'')
      else Inr (map (\<lambda>row. take (nat target_width) (drop (nat offset_width) row))
                  (take (nat target_height) (drop (nat offset_height) img))))"

definition pad_to_bounding_box :: "image \<Rightarrow> int \<Rightarrow> int \<Rightarrow> int \<Rightarrow> int \<Rightarrow> error + image" where
  "pad_to_bounding_box img offset_height offset_width target_height target_width =
     (let after_padding_width = target_width - offset_width - image_width img;
          after_padding_height = target_height - offset_height - image_height img;
          zero_px = replicate (image_channels img) 0
      in if offset_height < 0 \<or> offset_width < 0
            \<or> after_padding_width < 0 \<or> after_padding_height < 0
         then Inl (ValueError ''image larger than the padding target'')
         else Inr (replicate (nat offset_height) (replicate (nat target_width) zero_px)
                   @ map (\<lambda>row. replicate (nat offset_width) zero_px @ row
                                  @ replicate (nat after_padding_width) zero_px) img
                   @ replicate (nat after_padding_height) (replicate (nat target_width) zero_px)))"

text \<open>
  \<^verbatim>\<open>shiftedpatch.crop_shift_pad\<close> (lines 88 to 122). Every branch of the mode
  test reads \<^verbatim>\<open>self.half_patch\<close> before anything is cropped.
\<close>

definition crop_shift_pad :: "pyobj \<Rightarrow> image \<Rightarrow> string \<Rightarrow> error + image" where
  "crop_shift_pad self images mode =
     res_bind
       (if mode = ''left-up'' then
          res_bind (getint self ''half_patch'') (\<lambda>crop_height.
          res_bind (getint self ''half_patch'') (\<lambda>crop_width.
          Inr (crop_height, crop_width, 0, 0)))
        else if mode = ''left-down'' then
          res_bind (getint self ''half_patch'') (\<lambda>crop_width.
          res_bind (getint self ''half_patch'') (\<lambda>shift_height.
          Inr (0, crop_width, shift_height, 0)))
        else if mode = ''right-up'' then
          res_bind (getint self ''half_patch'') (\<lambda>crop_height.
          res_bind (getint self ''half_patch'') (\<lambda>shift_width.
          Inr (crop_height, 0, 0, shift_width)))
        else
          res_bind (getint self ''half_patch'') (\<lambda>shift_height.
          res_bind (getint self ''half_patch'') (\<lambda>shift_width.
          Inr (0, 0, shift_height, shift_width))))
       (\<lambda>(crop_height, crop_width, shift_height, shift_width).
          res_bind (getint self ''image_size'') (\<lambda>image_size.
          res_bind (getint self ''half_patch'') (\<lambda>half_patch.
          res_bind (crop_to_bounding_box images crop_height crop_width
                      (image_size - half_patch) (image_size - half_patch)) (\<lambda>crop.
          res_bind (getint self ''image_size'') (\<lambda>image_size.
          pad_to_bounding_box crop shift_height shift_width image_size image_size)))))"

text \<open>
  Modelled from the spec: concatenation along the channel axis, an operation of the
  runtime. The images must agree in height and width.
\<close>

fun concat_channels :: "image list \<Rightarrow> error + image" where
  "concat_channels [] = Inl (ValueError ''nothing to concatenate'')"
| "concat_channels [img] = Inr img"
| "concat_channels (img # imgs) =
     res_bind (concat_channels imgs) (\<lambda>rest.
       if map length img = map length rest
       then Inr (map2 (map2 (@)) img rest)
       else Inl (ValueError ''shapes differ outside the concatenation axis''))"

text \<open>
  Modelled from the spec: patch extraction is an operation of the runtime. It gives the
  non-overlapping patches with stride equal to the patch size and no padding
  (section 4.1, step 2): a grid of \<open>height div p\<close> by \<open>width div p\<close> patches, each
  flattened row by row.
\<close>

definition patch_at :: "image \<Rightarrow> nat \<Rightarrow> nat \<Rightarrow> nat \<Rightarrow> real list" where
  "patch_at img p r c =
     concat (map (\<lambda>row. concat (take p (drop (c * p) row))) (take p (drop (r * p) img)))"

definition extract_patches :: "image \<Rightarrow> int \<Rightarrow> error + real list list list" where
  "extract_patches img patch_size =
     (if patch_size \<le> 0 then Inl (ValueError ''patch size must be positive'')
      else let p = nat patch_size in
        Inr (map (\<lambda>r. map (\<lambda>c. patch_at img p r c) [0..<nat (image_width img) div p])
               [0..<length img div p]))"

text \<open>
  Modelled from the spec: the three layers the tokenizer owns are layers of the runtime.
  The reshape cuts the row-major sequence of all features into the configured number of
  rows, the projection is an affine map of each row, and the normalisation centres and
  scales each row over its features (section 4.1, steps 2 to 4). The weights are those
  the layers have at the time of the call.
\<close>

record weights =
  proj_kernel :: "real list list"
  proj_bias :: "real list"
  ln_gamma :: "real list"
  ln_beta :: "real list"

definition dot :: "real list \<Rightarrow> real list \<Rightarrow> real" where
  "dot xs ys = sum_list (map2 (*) xs ys)"

definition dense :: "real list list \<Rightarrow> real list \<Rightarrow> real list list \<Rightarrow> error + real list list" where
  "dense kernel_matrix bias x =
     (if list_all (\<lambda>row. length row = length kernel_matrix) x
      then Inr (map (\<lambda>row. map2 (\<lambda>col b. dot row col + b) (transpose kernel_matrix) bias) x)
      else Inl (ValueError ''input features do not match the kernel''))"

definition layer_norm_row :: "real \<Rightarrow> real list \<Rightarrow> real list \<Rightarrow> real list \<Rightarrow> real list" where
  "layer_norm_row eps gamma beta x =
     (let mean = sum_list x / real (length x);
          variance = sum_list (map (\<lambda>v. (v - mean)\<^sup>2) x) / real (length x)
      in map (\<lambda>(v, g, b). (v - mean) / sqrt (variance + eps) * g + b) (zip x (zip gamma beta)))"

definition reshape_rows :: "int \<Rightarrow> real list \<Rightarrow> error + real list list" where
  "reshape_rows n flat =
     (if n \<le> 0 \<or> int (length flat) mod n \<noteq> 0
      then Inl (ValueError ''total size of new array must be unchanged'')
      else let k = length flat div nat n in
        Inr (map (\<lambda>i. take k (drop (i * k) flat)) [0..<nat n]))"

fun call_layer :: "weights \<Rightarrow> layer \<Rightarrow> real list list \<Rightarrow> error + real list list" where
  "call_layer w (Reshape n) x = reshape_rows n (concat x)"
| "call_layer w (Dense units) x = dense (proj_kernel w) (proj_bias w) x"
| "call_layer w (LayerNormalization eps) x =
     Inr (map (layer_norm_row eps (ln_gamma w) (ln_beta w)) x)"

text \<open>
  \<^verbatim>\<open>shiftedpatch.call\<close> (lines 124 to 143), in two parts: lines 125 to 137 up to
  the flattened patches that enter the projection, then lines 138 to 143.
\<close>

definition shiftedpatch_flat_patches ::
  "pyobj \<Rightarrow> weights \<Rightarrow> image \<Rightarrow> error + (real list list \<times> real list list list)" where
  "shiftedpatch_flat_patches self w images =
     res_bind (getbool self ''vanilla'') (\<lambda>vanilla.
     res_bind
       (if \<not> vanilla then
          res_bind (crop_shift_pad self images ''left-up'') (\<lambda>left_up.
          res_bind (crop_shift_pad self images ''left-down'') (\<lambda>left_down.
          res_bind (crop_shift_pad self images ''right-up'') (\<lambda>right_up.
          res_bind (crop_shift_pad self images ''right-down'') (\<lambda>right_down.
          concat_channels [images, left_up, left_down, right_up, right_down]))))
        else Inr images) (\<lambda>images.
     res_bind (getint self ''patch_size'') (\<lambda>patch_size.
     res_bind (extract_patches images patch_size) (\<lambda>patches.
     res_bind (getlayer self ''flatten_patches'') (\<lambda>flatten_patches.
     res_bind (call_layer w flatten_patches (concat patches)) (\<lambda>flat_patches.
     Inr (flat_patches, patches)))))))"

definition shiftedpatch_call ::
  "pyobj \<Rightarrow> weights \<Rightarrow> image \<Rightarrow> error + (real list list \<times> real list list list)" where
  "shiftedpatch_call self w images =
     res_bind (shiftedpatch_flat_patches self w images) (\<lambda>(flat_patches, patches).
     res_bind (getbool self ''vanilla'') (\<lambda>vanilla.
     res_bind
       (if \<not> vanilla then
          res_bind (getlayer self ''layer_norm'') (\<lambda>layer_norm.
          res_bind (call_layer w layer_norm flat_patches) (\<lambda>tokenz.
          res_bind (getlayer self ''projection'') (\<lambda>projection.
          call_layer w projection tokenz)))
        else
          res_bind (getlayer self ''projection'') (\<lambda>projection.
          call_layer w projection flat_patches)) (\<lambda>tokenz.
     Inr (tokenz, patches))))"

text \<open>
  Line 187 of \<^verbatim>\<open>vit_classifier\<close> constructs the tokenizer and calls it on the
  augmented image at once.
\<close>

definition tokenize ::
  "int \<Rightarrow> int \<Rightarrow> int \<Rightarrow> int \<Rightarrow> bool \<Rightarrow> weights \<Rightarrow> image
     \<Rightarrow> error + (real list list \<times> real list list list)" where
  "tokenize image_size patch_size num_patches projection_dim vanilla w augumented =
     res_bind (shiftedpatch_init image_size patch_size num_patches projection_dim vanilla)
       (\<lambda>self. shiftedpatch_call self w augumented)"

text \<open>The number of tokens of a result, and the number of features of each flattened patch.\<close>

definition token_count :: "error + (real list list \<times> real list list list) \<Rightarrow> error + nat" where
  "token_count r = map_sum id (\<lambda>(tokenz, patches). length tokenz) r"

definition feature_counts :: "error + (real list list \<times> real list list list) \<Rightarrow> error + nat list" where
  "feature_counts r = map_sum id (\<lambda>(flat_patches, patches). map length flat_patches) r"

section \<open>Locality self-attention\<close>

text \<open>
  In the base class of every layer of the runtime, \<^verbatim>\<open>trainable\<close> is a property:
  the base constructor sets it to \<open>True\<close>, and an assignment to it goes through the
  setter of the property. The base class is not part of the source and the source fixes
  no release of the runtime, so the setter is a parameter of the constructor below. The
  releases differ in what the setter keeps: the older ones keep the assigned object
  itself, the newer ones keep its truth value \<^verbatim>\<open>bool(value)\<close>.
\<close>

definition store_value :: "pyval \<Rightarrow> pyval" where
  "store_value v = v"

definition store_bool :: "pyval \<Rightarrow> pyval" where
  "store_bool v = BoolV (as_bool v)"

text \<open>
  \<^verbatim>\<open>multiheadattention.__init__\<close> (lines 163 to 165): the parent constructor
  sets \<^verbatim>\<open>trainable\<close> and keeps the number of heads, the key dimension and the
  dropout rate; line 165 then assigns to \<^verbatim>\<open>self.trainable\<close> one variable of value
  \<open>math.sqrt(float(self._key_dim))\<close>, which raises on a negative argument. In this
  attribute a float stands for a variable of the runtime.
\<close>

definition multiheadattention_init ::
  "(pyval \<Rightarrow> pyval) \<Rightarrow> int \<Rightarrow> int \<Rightarrow> real \<Rightarrow> error + pyobj" where
  "multiheadattention_init trainable_setter num_heads key_dim dropout =
     (let self = [(''trainable'', BoolV True),
                  (''_num_heads'', IntV num_heads),
                  (''_key_dim'', IntV key_dim),
                  (''_dropout'', FloatV dropout)]
      in if key_dim < 0 then Inl (ValueError ''math domain error'')
         else Inr (AList.update ''trainable''
                     (trainable_setter (FloatV (sqrt (of_int key_dim)))) self))"

text \<open>
  The quotient \<^verbatim>\<open>1.0 / self.trainable\<close> of line 168. Dividing by a variable of the
  runtime gives a tensor and raises nothing; dividing by a Python truth value or
  integer that is zero raises.
\<close>

fun reciprocal :: "pyval \<Rightarrow> error + real" where
  "reciprocal (FloatV r) = Inr (1 / r)"
| "reciprocal (BoolV b) =
     (if b then Inr 1 else Inl (ZeroDivisionError ''float division by zero''))"
| "reciprocal (IntV i) =
     (if i = 0 then Inl (ZeroDivisionError ''float division by zero'') else Inr (1 / of_int i))"
| "reciprocal (LayerV l) = Inl (TypeError ''unsupported operand type'')"

text \<open>
  Modelled from the spec: the two contraction equations are attributes that the parent
  attention layer sets. Queries, keys and values of one image are indexed by head, then
  position, then feature. The dot-product equation contracts the feature axis of a key
  and a query of the same head: the score of head \<open>h\<close> at query position \<open>t\<close> and
  key position \<open>s\<close>. The combine equation weights the values of a head by a row of
  probabilities (section 4.3).
\<close>

type_synonym tensor = "real list list list"

definition einsum_dot_product :: "tensor \<Rightarrow> tensor \<Rightarrow> tensor" where
  "einsum_dot_product key query =
     map2 (\<lambda>key_h query_h. map (\<lambda>q. map (\<lambda>k. dot k q) key_h) query_h) key query"

definition einsum_combine :: "tensor \<Rightarrow> tensor \<Rightarrow> tensor" where
  "einsum_combine scores val =
     map2 (\<lambda>scores_h val_h. map (\<lambda>row. map (dot row) (transpose val_h)) scores_h) scores val"

text \<open>
  \<^verbatim>\<open>multiheadattention._compute_attention\<close> (lines 167 to 174). The masked
  normalisation and the dropout layer are inherited from the parent class and are
  parameters here.
\<close>

definition compute_attention ::
  "pyobj \<Rightarrow> (tensor \<Rightarrow> 'm \<Rightarrow> tensor) \<Rightarrow> (tensor \<Rightarrow> bool \<Rightarrow> tensor)
     \<Rightarrow> tensor \<Rightarrow> tensor \<Rightarrow> tensor \<Rightarrow> 'm \<Rightarrow> bool \<Rightarrow> error + (tensor \<times> tensor)" where
  "compute_attention self masked_softmax dropout_layer query key val attention_mask training =
     res_bind (getattr self ''trainable'') (\<lambda>trainable.
     res_bind (reciprocal trainable) (\<lambda>factor.
     let query = map (map (map (\<lambda>x. x * factor))) query;
         attention_scores = einsum_dot_product key query;
         attention_scores = masked_softmax attention_scores attention_mask;
         attention_scores_drop = dropout_layer attention_scores training;
         attention_output = einsum_combine attention_scores_drop val
     in Inr (attention_output, attention_scores)))"

text \<open>
  The attention the specification compares with, in its words: standard scaled
  dot-product attention divides the scores by a fixed scale, the square root of the
  head dimension, then masks and normalises, applies dropout and combines with the
  values.
\<close>

definition scaled_dot_product_attention ::
  "real \<Rightarrow> (tensor \<Rightarrow> 'm \<Rightarrow> tensor) \<Rightarrow> (tensor \<Rightarrow> bool \<Rightarrow> tensor)
     \<Rightarrow> tensor \<Rightarrow> tensor \<Rightarrow> tensor \<Rightarrow> 'm \<Rightarrow> bool \<Rightarrow> tensor \<times> tensor" where
  "scaled_dot_product_attention scale masked_softmax dropout_layer query key val attention_mask training =
     (let raw_scores = einsum_dot_product key query;
          scores = map (map (map (\<lambda>x. x / scale))) raw_scores;
          probabilities = masked_softmax scores attention_mask;
          dropped = dropout_layer probabilities training
      in (einsum_combine dropped val, probabilities))"

section \<open>The diagonal attention mask\<close>

text \<open>
  Lines 181 and 182: one minus the identity matrix, cast to 8-bit integers under a
  leading axis of size one. The cast truncates towards zero. The number of patches is
  the square of line 41, so it is a natural number.
\<close>

definition eye :: "nat \<Rightarrow> real list list" where
  "eye n = map (\<lambda>i. map (\<lambda>j. if i = j then 1 else 0) [0..<n]) [0..<n]"

definition cast_int8 :: "real \<Rightarrow> 8 word" where
  "cast_int8 x = word_of_int (if 0 \<le> x then \<lfloor>x\<rfloor> else \<lceil>x\<rceil>)"

definition diag_attn_mask :: "nat \<Rightarrow> 8 word list list list" where
  "diag_attn_mask num_patches = [map (map (\<lambda>x. cast_int8 (1 - x))) (eye num_patches)]"

text \<open>
  Modelled from the spec: the masked normalisation \<^verbatim>\<open>_masked_softmax\<close> that line 170
  calls is inherited from the parent attention layer and is not part of the source.
  Without a mask it normalises the scores of each query into a distribution over the
  key positions that sums to one (section 4.3).
\<close>

definition softmax :: "real list \<Rightarrow> real list" where
  "softmax s = (let z = sum_list (map exp s) in map (\<lambda>x. exp x / z) s)"

text \<open>
  Modelled from the spec: with a mask, the disallowed positions, those where the mask
  is zero, get zero probability before the scores are normalised (section 4.3). The
  specification asks for a distribution in every row, so a query all of whose positions
  are disallowed keeps the plain normalisation of its scores.
\<close>

definition masked_softmax_row :: "real list \<Rightarrow> 8 word list \<Rightarrow> real list" where
  "masked_softmax_row s m =
     (let w = map2 (\<lambda>x b. if b = 0 then 0 else exp x) s m;
          z = sum_list w
      in if z = 0 then softmax s else map (\<lambda>x. x / z) w)"

text \<open>
  Modelled from the spec: the normalisation of a matrix of scores is row by row, one row
  of the mask for each query, and the heads of a layer share the mask.
\<close>

definition masked_softmax_matrix :: "real list list \<Rightarrow> 8 word list list option \<Rightarrow> real list list" where
  "masked_softmax_matrix scores attention_mask =
     (case attention_mask of None \<Rightarrow> map softmax scores
      | Some m \<Rightarrow> map2 masked_softmax_row scores m)"

definition masked_softmax :: "tensor \<Rightarrow> 8 word list list option \<Rightarrow> tensor" where
  "masked_softmax scores attention_mask =
     map (\<lambda>scores_h. masked_softmax_matrix scores_h attention_mask) scores"

text \<open>
  What a row of probabilities gives a query at its own key position, and the total it
  gives to all other key positions.
\<close>

definition diagonal_probability :: "real list list \<Rightarrow> nat \<Rightarrow> real" where
  "diagonal_probability p i = p ! i ! i"

definition off_diagonal_sum :: "real list list \<Rightarrow> nat \<Rightarrow> real" where
  "off_diagonal_sum p i = sum_list (map (\<lambda>j. p ! i ! j) (filter (\<lambda>j. j \<noteq> i) [0..<length (p ! i)]))"

section \<open>The encoder block\<close>

text \<open>
  \<^verbatim>\<open>mlp\<close> (lines 176 to 180): each hidden layer followed by dropout. The layers are
  created inside the loop and are given here as the functions they compute.
\<close>

definition mlp ::
  "real list list \<Rightarrow> (real list list \<Rightarrow> real list list) list
     \<Rightarrow> (real list list \<Rightarrow> real list list) \<Rightarrow> real list list" where
  "mlp x hidden_layers dropout = foldl (\<lambda>x dense_gelu. dropout (dense_gelu x)) x hidden_layers"

text \<open>The \<^verbatim>\<open>Add\<close> layer sums two tensors of the same shape.\<close>

definition add_layer :: "real list list \<Rightarrow> real list list \<Rightarrow> error + real list list" where
  "add_layer a b =
     (if map length a = map length b then Inr (map2 (map2 (+)) a b)
      else Inl (ValueError ''inputs of the Add layer have different shapes''))"

text \<open>
  The body of the loop of \<^verbatim>\<open>vit_classifier\<close> (lines 191 to 200). The two
  normalisations, the attention and the feed-forward network are the layers the
  iteration creates. Line 199 is the expression statement \<^verbatim>\<open>x3 - mlp(...)\<close>: the
  difference is computed and dropped, and line 200 adds \<open>x3\<close> and \<open>x2\<close>.
\<close>

definition encoder_block ::
  "(real list list \<Rightarrow> real list list) \<Rightarrow> (real list list \<Rightarrow> real list list \<Rightarrow> real list list)
     \<Rightarrow> (real list list \<Rightarrow> real list list) \<Rightarrow> (real list list \<Rightarrow> real list list)
     \<Rightarrow> real list list \<Rightarrow> error + real list list" where
  "encoder_block layer_norm1 attention layer_norm2 feed_forward encoded_patches =
     (let x1 = layer_norm1 encoded_patches;
          attention_output = attention x1 x1
      in res_bind (add_layer attention_output encoded_patches) (\<lambda>x2.
         let x3 = layer_norm2 x2;
             dropped = map2 (map2 (-)) x3 (feed_forward x3)
         in add_layer x3 x2))"

text \<open>
  The block the specification describes (section 4.4, steps 1 to 6), in its words: the
  feed-forward output is added to the first residual.
\<close>

definition spec_encoder_block ::
  "(real list list \<Rightarrow> real list list) \<Rightarrow> (real list list \<Rightarrow> real list list \<Rightarrow> real list list)
     \<Rightarrow> (real list list \<Rightarrow> real list list) \<Rightarrow> (real list list \<Rightarrow> real list list)
     \<Rightarrow> real list list \<Rightarrow> error + real list list" where
  "spec_encoder_block layer_normalize attend layer_normalize2 feed_forward enc =
     (let normed = layer_normalize enc;
          attn_out = attend normed normed
      in res_bind (add_layer attn_out enc) (\<lambda>residual1.
         let normed2 = layer_normalize2 residual1;
             ff_out = feed_forward normed2
         in add_layer ff_out residual1))"

text \<open>A layer that outputs zeros of the shape of its input.\<close>

definition zeros_like :: "real list list \<Rightarrow> real list list" where
  "zeros_like x = map (map (\<lambda>v. 0)) x"

text \<open>
  \<^verbatim>\<open>layers.LayerNormalization(epsilon = 1e-6)\<close> of lines 191 and 198 as constructed:
  scale one and offset zero on every feature.
\<close>

definition layer_normalization :: "real list list \<Rightarrow> real list list" where
  "layer_normalization x =
     map (\<lambda>row. layer_norm_row (1 / 1000000) (replicate (length row) 1) (replicate (length row) 0) row) x"

section \<open>Properties of the schedule\<close>

lemma warmupcosine_init_obj:
  "warmupcosine_init b t w s = Inr self \<Longrightarrow>
   self = [(''learning_rate_base'', FloatV b), (''total_steps'', IntV t),
       (''warmup_learning_rate'', FloatV w), (''warmup_steps'', IntV s), (''pi'', FloatV pi)]"
  by (simp add: warmupcosine_init_def)

text \<open>
  What a call returns on a freshly constructed schedule: one of the two validation
  errors, or the error of the attribute that line 235 reads.
\<close>

lemma warmupcosine_call_init:
  "warmupcosine_call [(''learning_rate_base'', FloatV b), (''total_steps'', IntV t),
       (''warmup_learning_rate'', FloatV w), (''warmup_steps'', IntV s), (''pi'', FloatV pi)] step =
     (if t < s then Inl (ValueError ''Total Steps must be larger or equal to warmup steps'')
      else if 0 < s \<and> b < w
        then Inl (ValueError ''Base learning rate must be larger than warmup learning rate'')
      else Inl (AttributeError ''total_Steps''))"
  by (simp add: warmupcosine_call_def getnum_def getattr_def res_bind_def Let_def)

text \<open>
  On an object that also has an attribute \<^verbatim>\<open>total_Steps\<close> equal to the total steps,
  and whose parameters pass both validations, the call returns the warmup line below
  the warmup steps, the cosine formula up to the total steps and zero beyond them.
\<close>

lemma warmupcosine_call_with_total_Steps:
  assumes "s \<le> t" and "0 < s \<longrightarrow> w \<le> b"
  shows "warmupcosine_call
           [(''learning_rate_base'', FloatV b), (''total_steps'', IntV t),
            (''warmup_learning_rate'', FloatV w), (''warmup_steps'', IntV s),
            (''pi'', FloatV pi), (''total_Steps'', IntV t)] step =
         Inr (if t < step then 0
              else if 0 < s \<and> step < s
                then (b - w) / of_int s * of_int step + w
              else 0.5 * b * (1 + cos (pi * (of_int step - of_int s) / (of_int t - of_int s))))"
  using assms
  by (auto simp add: warmupcosine_call_def getnum_def getattr_def res_bind_def Let_def)

text \<open>
  Claim C10. For every schedule constructed with parameters that pass both validations
  (the warmup steps do not exceed the total steps, and with a positive number of warmup
  steps the base rate is not below the warmup rate) and for every step, evaluating the
  rate raises the attribute error for \<^verbatim>\<open>total_Steps\<close>: the constructor defines
  \<^verbatim>\<open>total_steps\<close> only, so no learning rate is ever returned.
\<close>

theorem warmupcosine_call_attribute_error:
  assumes "warmupcosine_init learning_rate_base total_steps warmup_learning_rate warmup_steps = Inr self"
    and "warmup_steps \<le> total_steps"
    and "0 < warmup_steps \<longrightarrow> warmup_learning_rate \<le> learning_rate_base"
  shows "warmupcosine_call self step = Inl (AttributeError ''total_Steps'')"
  using assms(2,3) unfolding warmupcosine_init_obj [OF assms(1)] warmupcosine_call_init
  by auto

theorem warmupcosine_call_attribute_error_witness:
  "warmupcosine_init (1 / 1000) 1953 0 195 =
     Inr [(''learning_rate_base'', FloatV (1 / 1000)), (''total_steps'', IntV 1953),
       (''warmup_learning_rate'', FloatV 0), (''warmup_steps'', IntV 195), (''pi'', FloatV pi)]
   \<and> (195::int) \<le> 1953 \<and> (0::int) < 195 \<and> (0::real) \<le> 1 / 1000
   \<and> warmupcosine_call [(''learning_rate_base'', FloatV (1 / 1000)), (''total_steps'', IntV 1953),
       (''warmup_learning_rate'', FloatV 0), (''warmup_steps'', IntV 195), (''pi'', FloatV pi)] 200
      = Inl (AttributeError ''total_Steps'')"
proof -
  have c: "warmupcosine_init (1 / 1000) 1953 0 195 =
     Inr [(''learning_rate_base'', FloatV (1 / 1000)), (''total_steps'', IntV 1953),
       (''warmup_learning_rate'', FloatV 0), (''warmup_steps'', IntV 195), (''pi'', FloatV pi)]"
    by (simp add: warmupcosine_init_def)
  show ?thesis
    using c warmupcosine_call_attribute_error [OF c, of 200] by simp
qed

text \<open>
  Claim C2. The claim gives the rate at every step by the warmup line and the cosine
  formula; at step 0 with warmup it is the warmup start rate. The code returns no rate:
  for the schedule of \<^verbatim>\<open>run_experiment\<close> (base rate 0.001, 1953 total steps, warmup
  from 0.0 over 195 steps) the rate at step 0 is the attribute error of line 235, where
  the claim has 0.0.
\<close>

theorem warmupcosine_rate_first_step:
  "res_bind (warmupcosine_init (1 / 1000) 1953 0 195) (\<lambda>self. warmupcosine_call self 0)
     = Inl (AttributeError ''total_Steps'')"
  by (simp add: warmupcosine_init_def res_bind_def [of "Inr _"] warmupcosine_call_init)

text \<open>
  Claim C3, as amended. Constructing a schedule succeeds for all parameters: the
  constructor validates nothing. The two validations run when the rate is evaluated:
  every call raises a value error when the total steps are below the warmup steps, and
  when they are not, the warmup steps are positive and the base rate is below the warmup
  start rate.
\<close>

theorem warmupcosine_validation_at_call:
  "\<exists>self. warmupcosine_init learning_rate_base total_steps warmup_learning_rate warmup_steps = Inr self
     \<and> (total_steps < warmup_steps \<longrightarrow>
          warmupcosine_call self step =
            Inl (ValueError ''Total Steps must be larger or equal to warmup steps''))
     \<and> (warmup_steps \<le> total_steps \<and> 0 < warmup_steps \<and> learning_rate_base < warmup_learning_rate \<longrightarrow>
          warmupcosine_call self step =
            Inl (ValueError ''Base learning rate must be larger than warmup learning rate''))"
  by (simp add: warmupcosine_init_def warmupcosine_call_init)

theorem warmupcosine_validation_at_call_witness:
  "(\<exists>self. warmupcosine_init (1 / 1000) 5 0 10 = Inr self \<and> (5::int) < 10
      \<and> warmupcosine_call self 0 =
            Inl (ValueError ''Total Steps must be larger or equal to warmup steps''))
   \<and> (\<exists>self. warmupcosine_init (1 / 1000) 100 (1 / 100) 10 = Inr self
      \<and> (10::int) \<le> 100 \<and> (0::int) < 10 \<and> (1 / 1000 :: real) < 1 / 100
      \<and> warmupcosine_call self 0 =
            Inl (ValueError ''Base learning rate must be larger than warmup learning rate''))"
  using warmupcosine_validation_at_call [of "1 / 1000" 5 0 10 0]
    warmupcosine_validation_at_call [of "1 / 1000" 100 "1 / 100" 10 0]
  by simp

text \<open>
  Claim C3 as stated fails: with 5 total steps and 10 warmup steps the constructor
  returns the schedule object.
\<close>

theorem warmupcosine_init_no_validation:
  "(5::int) < 10 \<and> warmupcosine_init (1 / 1000) 5 0 10 =
     Inr [(''learning_rate_base'', FloatV (1 / 1000)), (''total_steps'', IntV 5),
       (''warmup_learning_rate'', FloatV 0), (''warmup_steps'', IntV 10), (''pi'', FloatV pi)]"
  by (simp add: warmupcosine_init_def)

section \<open>Properties of the tokenizer\<close>

lemma shiftedpatch_init_obj:
  "shiftedpatch_init i p n d v = Inr self \<Longrightarrow>
   self = [(''vanilla'', BoolV v), (''image_size'', IntV i), (''patch_size'', IntV p),
     (''haff_patch'', IntV (p div 2)), (''flatten_patches'', LayerV (Reshape n)),
     (''projection'', LayerV (Dense d)), (''layer_norm'', LayerV (LayerNormalization layer_norm_eps))]"
  by (simp add: shiftedpatch_init_def)

lemma getint_half_patch_init:
  "getint [(''vanilla'', BoolV v), (''image_size'', IntV i), (''patch_size'', IntV p),
     (''haff_patch'', IntV h), (''flatten_patches'', LayerV f), (''projection'', LayerV d),
     (''layer_norm'', LayerV l)] ''half_patch'' = Inl (AttributeError ''half_patch'')"
  by (simp add: getint_def getattr_def res_bind_def)

lemma crop_shift_pad_no_half_patch:
  "getint self ''half_patch'' = Inl e \<Longrightarrow> crop_shift_pad self images mode = Inl e"
  by (simp add: crop_shift_pad_def res_bind_def)

lemma crop_shift_pad_init:
  "shiftedpatch_init i p n d v = Inr self \<Longrightarrow>
   crop_shift_pad self images mode = Inl (AttributeError ''half_patch'')"
  by (drule shiftedpatch_init_obj)
     (simp add: crop_shift_pad_no_half_patch [OF getint_half_patch_init])

lemma getbool_vanilla_init:
  "shiftedpatch_init i p n d v = Inr self \<Longrightarrow> getbool self ''vanilla'' = Inr v"
  by (drule shiftedpatch_init_obj) (simp add: getbool_def getattr_def res_bind_def)

lemma flat_patches_locality:
  assumes "shiftedpatch_init i p n d False = Inr self"
  shows "shiftedpatch_flat_patches self w images = Inl (AttributeError ''half_patch'')"
  by (simp add: shiftedpatch_flat_patches_def getbool_vanilla_init [OF assms]
      crop_shift_pad_init [OF assms] res_bind_def)

lemma call_locality:
  assumes "shiftedpatch_init i p n d False = Inr self"
  shows "shiftedpatch_call self w images = Inl (AttributeError ''half_patch'')"
  by (simp add: shiftedpatch_call_def flat_patches_locality [OF assms] res_bind_def)

lemma shiftedpatch_init_succeeds:
  "\<exists>self. shiftedpatch_init i p n d v = Inr self"
  by (simp add: shiftedpatch_init_def)

text \<open>
  On an object that does have the attribute \<^verbatim>\<open>half_patch\<close>, the four modes crop
  and pad at the offsets of the table of the specification.
\<close>

lemma crop_shift_pad_with_half_patch:
  assumes "getint self ''half_patch'' = Inr h" and "getint self ''image_size'' = Inr n"
  shows "crop_shift_pad self img ''left-up'' =
           res_bind (crop_to_bounding_box img h h (n - h) (n - h))
             (\<lambda>c. pad_to_bounding_box c 0 0 n n)"
    and "crop_shift_pad self img ''left-down'' =
           res_bind (crop_to_bounding_box img 0 h (n - h) (n - h))
             (\<lambda>c. pad_to_bounding_box c h 0 n n)"
    and "crop_shift_pad self img ''right-up'' =
           res_bind (crop_to_bounding_box img h 0 (n - h) (n - h))
             (\<lambda>c. pad_to_bounding_box c 0 h n n)"
    and "crop_shift_pad self img ''right-down'' =
           res_bind (crop_to_bounding_box img 0 0 (n - h) (n - h))
             (\<lambda>c. pad_to_bounding_box c h h n n)"
  by (simp_all add: crop_shift_pad_def assms res_bind_def)

text \<open>
  Claim C9. For every tokenizer constructed with \<^verbatim>\<open>vanilla = False\<close>, whatever its
  sizes, its weights and the image, the call raises the attribute error for
  \<^verbatim>\<open>half_patch\<close> and returns no tokens: the constructor stores the half patch size as
  \<^verbatim>\<open>haff_patch\<close>.
\<close>

theorem shiftedpatch_call_locality_attribute_error:
  assumes "shiftedpatch_init image_size patch_size num_patches projection_dim False = Inr self"
  shows "shiftedpatch_call self w images = Inl (AttributeError ''half_patch'')"
  by (rule call_locality [OF assms])

theorem shiftedpatch_call_locality_attribute_error_witness:
  "shiftedpatch_init 72 6 144 64 False =
     Inr [(''vanilla'', BoolV False), (''image_size'', IntV 72), (''patch_size'', IntV 6),
       (''haff_patch'', IntV 3), (''flatten_patches'', LayerV (Reshape 144)),
       (''projection'', LayerV (Dense 64)),
       (''layer_norm'', LayerV (LayerNormalization layer_norm_eps))]
   \<and> shiftedpatch_call
       [(''vanilla'', BoolV False), (''image_size'', IntV 72), (''patch_size'', IntV 6),
        (''haff_patch'', IntV 3), (''flatten_patches'', LayerV (Reshape 144)),
        (''projection'', LayerV (Dense 64)),
        (''layer_norm'', LayerV (LayerNormalization layer_norm_eps))]
       \<lparr>proj_kernel = [], proj_bias = [], ln_gamma = [], ln_beta = []\<rparr>
       [[[0, 0, 0]]]
     = Inl (AttributeError ''half_patch'')"
proof -
  have c: "shiftedpatch_init 72 6 144 64 False =
     Inr [(''vanilla'', BoolV False), (''image_size'', IntV 72), (''patch_size'', IntV 6),
       (''haff_patch'', IntV 3), (''flatten_patches'', LayerV (Reshape 144)),
       (''projection'', LayerV (Dense 64)),
       (''layer_norm'', LayerV (LayerNormalization layer_norm_eps))]"
    by (simp add: shiftedpatch_init_def)
  show ?thesis
    using c shiftedpatch_call_locality_attribute_error [OF c] by simp
qed

text \<open>
  Claim C4. The claim has each of the four shifts crop and pad at the offsets of its
  table. The code returns no image: on the tokenizer of the module's configuration
  (image size 72, patch size 6) every mode raises the attribute error for
  \<^verbatim>\<open>half_patch\<close> before it crops.
\<close>

theorem crop_shift_pad_attribute_error:
  "res_bind (shiftedpatch_init 72 6 144 64 False)
     (\<lambda>self. crop_shift_pad self (replicate 72 (replicate 72 [0, 0, 0])) ''left-up'')
     = Inl (AttributeError ''half_patch'')
   \<and> res_bind (shiftedpatch_init 72 6 144 64 False)
     (\<lambda>self. crop_shift_pad self (replicate 72 (replicate 72 [0, 0, 0])) ''left-down'')
     = Inl (AttributeError ''half_patch'')
   \<and> res_bind (shiftedpatch_init 72 6 144 64 False)
     (\<lambda>self. crop_shift_pad self (replicate 72 (replicate 72 [0, 0, 0])) ''right-up'')
     = Inl (AttributeError ''half_patch'')
   \<and> res_bind (shiftedpatch_init 72 6 144 64 False)
     (\<lambda>self. crop_shift_pad self (replicate 72 (replicate 72 [0, 0, 0])) ''right-down'')
     = Inl (AttributeError ''half_patch'')"
proof -
  obtain self where c: "shiftedpatch_init 72 6 144 64 False = Inr self"
    using shiftedpatch_init_succeeds by blast
  show ?thesis
    unfolding c res_bind_def sum.case crop_shift_pad_init [OF c] by (intro conjI refl)
qed

subsection \<open>The vanilla path\<close>

text \<open>
  On a well-formed image (every row of the same width, every pixel of the same number
  of channels) the vanilla path raises nothing: the patches form a grid of
  \<open>height div p\<close> by \<open>width div p\<close> vectors of \<open>p * p * channels\<close> features, and
  the reshape to the configured number of patches succeeds when that number divides
  the total size.
\<close>

lemma length_concat_uniform:
  "(\<And>x. x \<in> set xs \<Longrightarrow> length x = k) \<Longrightarrow> length (concat xs) = length xs * k"
  by (induction xs) auto

lemma patch_at_length:
  assumes wf: "\<forall>row\<in>set img. length row = W \<and> (\<forall>px\<in>set row. length px = C)"
    and r: "(r + 1) * p \<le> length img" and c: "(c + 1) * p \<le> W"
  shows "length (patch_at img p r c) = p * (p * C)"
proof -
  let ?rows = "take p (drop (r * p) img)"
  have len_rows: "length ?rows = p" using r by simp
  have each: "length (concat (take p (drop (c * p) row))) = p * C" if "row \<in> set ?rows" for row
  proof -
    have in_img: "row \<in> set img"
      using that by (meson in_set_dropD in_set_takeD)
    then have w: "length row = W" and px: "\<forall>px\<in>set row. length px = C"
      using wf by auto
    have "length (take p (drop (c * p) row)) = p" using c w by simp
    moreover have "\<And>px. px \<in> set (take p (drop (c * p) row)) \<Longrightarrow> length px = C"
      using px by (meson in_set_dropD in_set_takeD)
    ultimately show ?thesis using length_concat_uniform [of "take p (drop (c * p) row)" C] by simp
  qed
  have "length (patch_at img p r c)
          = length (map (\<lambda>row. concat (take p (drop (c * p) row))) ?rows) * (p * C)"
    unfolding patch_at_def by (rule length_concat_uniform) (auto simp: each)
  then show ?thesis using len_rows by simp
qed

lemma div_mult_bound: "r < n div p \<Longrightarrow> (r + 1) * p \<le> (n::nat)"
proof -
  assume "r < n div p"
  then have "r + 1 \<le> n div p" by simp
  then have "(r + 1) * p \<le> (n div p) * p" by (rule mult_le_mono1)
  also have "\<dots> \<le> n" by simp
  finally show ?thesis .
qed

lemma patches_grid:
  assumes wf: "\<forall>row\<in>set img. length row = W \<and> (\<forall>px\<in>set row. length px = C)"
  shows "length (concat (map (\<lambda>r. map (\<lambda>c. patch_at img p r c) [0..<W div p]) [0..<length img div p]))
           = (length img div p) * (W div p)"
    and "\<forall>x \<in> set (concat (map (\<lambda>r. map (\<lambda>c. patch_at img p r c) [0..<W div p]) [0..<length img div p])).
           length x = p * (p * C)"
proof -
  show "length (concat (map (\<lambda>r. map (\<lambda>c. patch_at img p r c) [0..<W div p]) [0..<length img div p]))
           = (length img div p) * (W div p)"
    by (subst length_concat_uniform [where k = "W div p"]) auto
  show "\<forall>x \<in> set (concat (map (\<lambda>r. map (\<lambda>c. patch_at img p r c) [0..<W div p]) [0..<length img div p])).
           length x = p * (p * C)"
    using patch_at_length [OF wf] div_mult_bound by auto
qed

lemma image_width_wf:
  assumes "\<forall>row\<in>set img. length row = W \<and> (\<forall>px\<in>set row. length px = C)" and "img \<noteq> []"
  shows "image_width img = int W"
  using assms by (cases img) (auto simp: image_width_def)

lemma extract_patches_wf:
  assumes wf: "\<forall>row\<in>set img. length row = W \<and> (\<forall>px\<in>set row. length px = C)" and p: "0 < p"
  shows "\<exists>patches. extract_patches img p = Inr patches
           \<and> length (concat patches) = (length img div nat p) * (W div nat p)
           \<and> (\<forall>x \<in> set (concat patches). length x = nat p * (nat p * C))"
proof (cases "img = []")
  case True
  then show ?thesis using p by (simp add: extract_patches_def)
next
  case False
  have w: "nat (image_width img) = W" using image_width_wf [OF wf False] by simp
  show ?thesis
    using p patches_grid [OF wf, of "nat p"] by (simp add: extract_patches_def w Let_def)
qed

lemma reshape_rows_ok:
  assumes "0 < n" and "length flat = nat n * k"
  shows "\<exists>rows. reshape_rows n flat = Inr rows \<and> map length rows = replicate (nat n) k"
proof -
  have n: "0 < nat n" using assms(1) by simp
  have m: "int (length flat) mod n = 0" using assms by (simp add: nat_mult_distrib)
  have d: "length flat div nat n = k" using assms n by simp
  have "map length (map (\<lambda>i. take k (drop (i * k) flat)) [0..<nat n]) = replicate (nat n) k"
  proof (intro nth_equalityI)
    show "length (map length (map (\<lambda>i. take k (drop (i * k) flat)) [0..<nat n])) = length (replicate (nat n) k)"
      by simp
  next
    fix i assume "i < length (map length (map (\<lambda>i. take k (drop (i * k) flat)) [0..<nat n]))"
    then have i: "i < nat n" by simp
    then have "(i + 1) * k \<le> nat n * k" by (intro mult_le_mono1) simp
    then have "k \<le> length flat - i * k" using assms(2) by simp
    then show "map length (map (\<lambda>i. take k (drop (i * k) flat)) [0..<nat n]) ! i = replicate (nat n) k ! i"
      using i by simp
  qed
  then show ?thesis
    using assms(1) m d by (simp add: reshape_rows_def Let_def)
qed

lemma vanilla_flat_patches:
  assumes init: "shiftedpatch_init isz p n d True = Inr self"
    and p: "0 < p" and n: "0 < n"
    and wf: "\<forall>row\<in>set img. length row = W \<and> (\<forall>px\<in>set row. length px = C)"
    and total: "(length img div nat p) * (W div nat p) * (nat p * (nat p * C)) = nat n * k"
  shows "\<exists>flat patches. shiftedpatch_flat_patches self w img = Inr (flat, patches)
           \<and> map length flat = replicate (nat n) k"
proof -
  obtain patches where ex: "extract_patches img p = Inr patches"
    and len: "length (concat patches) = (length img div nat p) * (W div nat p)"
    and each: "\<forall>x \<in> set (concat patches). length x = nat p * (nat p * C)"
    using extract_patches_wf [OF wf p] by blast
  have "length (concat (concat patches)) = nat n * k"
    using length_concat_uniform [of "concat patches" "nat p * (nat p * C)"] each len total by simp
  then obtain rows where rs: "reshape_rows n (concat (concat patches)) = Inr rows"
    and rl: "map length rows = replicate (nat n) k"
    using reshape_rows_ok [OF n] by blast
  have obj: "self = [(''vanilla'', BoolV True), (''image_size'', IntV isz), (''patch_size'', IntV p),
     (''haff_patch'', IntV (p div 2)), (''flatten_patches'', LayerV (Reshape n)),
     (''projection'', LayerV (Dense d)), (''layer_norm'', LayerV (LayerNormalization layer_norm_eps))]"
    using init by (simp add: shiftedpatch_init_def)
  have "shiftedpatch_flat_patches self w img = Inr (rows, patches)"
    by (simp add: obj shiftedpatch_flat_patches_def getbool_def getint_def getlayer_def getattr_def
        res_bind_def ex rs)
  then show ?thesis using rl by blast
qed

lemma vanilla_call:
  assumes init: "shiftedpatch_init isz p n d True = Inr self"
    and flat: "shiftedpatch_flat_patches self w img = Inr (flat, patches)"
    and rl: "map length flat = replicate m (length (proj_kernel w))"
  shows "token_count (shiftedpatch_call self w img) = Inr m"
proof -
  have obj: "self = [(''vanilla'', BoolV True), (''image_size'', IntV isz), (''patch_size'', IntV p),
     (''haff_patch'', IntV (p div 2)), (''flatten_patches'', LayerV (Reshape n)),
     (''projection'', LayerV (Dense d)), (''layer_norm'', LayerV (LayerNormalization layer_norm_eps))]"
    using init by (simp add: shiftedpatch_init_def)
  have a: "list_all (\<lambda>row. length row = length (proj_kernel w)) flat"
  proof -
    have "\<forall>x\<in>set (map length flat). x = length (proj_kernel w)" unfolding rl by simp
    then show ?thesis by (simp add: list_all_iff)
  qed
  have m: "length flat = m" using arg_cong [OF rl, of length] by simp
  have v: "getbool self ''vanilla'' = Inr True" and pr: "getlayer self ''projection'' = Inr (Dense d)"
    by (simp_all add: obj getbool_def getlayer_def getattr_def res_bind_def)
  show ?thesis
    by (simp add: shiftedpatch_call_def flat v pr res_bind_def dense_def a token_count_def m)
qed

text \<open>
  Claim C7. The claim compares the features of a flattened patch on the two paths: one
  view on the vanilla path, five on the locality path. On the vanilla path a 72 by 72
  image of 3 channels with patch size 6 gives 144 flattened patches of 108 features. On
  the locality path the same image gives no flattened patches, where the claim has 540
  features each: the call stops at the attribute error for \<^verbatim>\<open>half_patch\<close>.
\<close>

theorem flat_patches_feature_counts:
  "feature_counts (res_bind (shiftedpatch_init 72 6 144 64 True) (\<lambda>self.
       shiftedpatch_flat_patches self w (replicate 72 (replicate 72 [0, 0, 0]))))
     = Inr (replicate 144 108)
   \<and> feature_counts (res_bind (shiftedpatch_init 72 6 144 64 False) (\<lambda>self.
       shiftedpatch_flat_patches self w (replicate 72 (replicate 72 [0, 0, 0]))))
     = Inl (AttributeError ''half_patch'')"
proof -
  obtain self where c: "shiftedpatch_init 72 6 144 64 False = Inr self"
    using shiftedpatch_init_succeeds by blast
  have locality: "feature_counts (res_bind (shiftedpatch_init 72 6 144 64 False) (\<lambda>self.
       shiftedpatch_flat_patches self w (replicate 72 (replicate 72 [0, 0, 0]))))
     = Inl (AttributeError ''half_patch'')"
    unfolding c res_bind_def sum.case flat_patches_locality [OF c]
    by (simp add: feature_counts_def)
  obtain self' where v: "shiftedpatch_init 72 6 144 64 True = Inr self'"
    using shiftedpatch_init_succeeds by blast
  obtain flat patches
    where f: "shiftedpatch_flat_patches self' w (replicate 72 (replicate 72 [0, 0, 0]))
                = Inr (flat, patches)"
      and l: "map length flat = replicate (nat 144) 108"
    using vanilla_flat_patches [OF v, where W = 72 and C = 3 and k = 108
        and img = "replicate 72 (replicate 72 [0, 0, 0])" and w = w]
    by auto
  have vanilla: "feature_counts (res_bind (shiftedpatch_init 72 6 144 64 True) (\<lambda>self.
       shiftedpatch_flat_patches self w (replicate 72 (replicate 72 [0, 0, 0]))))
     = Inr (replicate 144 108)"
    unfolding v res_bind_def sum.case f using l by (simp add: feature_counts_def)
  show ?thesis using vanilla locality by (rule conjI)
qed

text \<open>
  Claim C8. The claim has the tokenizer return (image size / patch size) squared tokens
  in both modes. For a 72 by 72 image of 3 channels the tokenizer of line 187 (image
  size 72, patch size 6, 144 patches) returns 144 tokens in vanilla mode. In locality
  mode it returns no tokens, where the claim has 144: the call stops at the attribute
  error for \<^verbatim>\<open>half_patch\<close>.
\<close>

theorem tokenize_token_counts:
  "token_count (tokenize 72 6 144 64 True
       \<lparr>proj_kernel = replicate 108 (replicate 64 0), proj_bias = replicate 64 0,
        ln_gamma = replicate 108 1, ln_beta = replicate 108 0\<rparr>
       (replicate 72 (replicate 72 [0, 0, 0])))
     = Inr 144
   \<and> token_count (tokenize 72 6 144 64 False
       \<lparr>proj_kernel = replicate 540 (replicate 64 0), proj_bias = replicate 64 0,
        ln_gamma = replicate 540 1, ln_beta = replicate 540 0\<rparr>
       (replicate 72 (replicate 72 [0, 0, 0])))
     = Inl (AttributeError ''half_patch'')"
proof -
  let ?w = "\<lparr>proj_kernel = replicate 108 (replicate 64 0), proj_bias = replicate 64 0,
        ln_gamma = replicate 108 1, ln_beta = replicate 108 (0::real)\<rparr>"
  obtain self where c: "shiftedpatch_init 72 6 144 64 False = Inr self"
    using shiftedpatch_init_succeeds by blast
  have locality: "token_count (tokenize 72 6 144 64 False
       \<lparr>proj_kernel = replicate 540 (replicate 64 0), proj_bias = replicate 64 0,
        ln_gamma = replicate 540 1, ln_beta = replicate 540 0\<rparr>
       (replicate 72 (replicate 72 [0, 0, 0])))
     = Inl (AttributeError ''half_patch'')"
    unfolding tokenize_def c res_bind_def sum.case call_locality [OF c]
    by (simp add: token_count_def)
  obtain self' where v: "shiftedpatch_init 72 6 144 64 True = Inr self'"
    using shiftedpatch_init_succeeds by blast
  obtain flat patches
    where f: "shiftedpatch_flat_patches self' ?w (replicate 72 (replicate 72 [0, 0, 0]))
                = Inr (flat, patches)"
      and l: "map length flat = replicate (nat 144) 108"
    using vanilla_flat_patches [OF v, where W = 72 and C = 3 and k = 108
        and img = "replicate 72 (replicate 72 [0, 0, 0])" and w = ?w]
    by auto
  have l': "map length flat = replicate 144 (length (proj_kernel ?w))"
    using l by simp
  have vanilla: "token_count (tokenize 72 6 144 64 True ?w
       (replicate 72 (replicate 72 [0, 0, 0]))) = Inr 144"
    unfolding tokenize_def v res_bind_def sum.case by (rule vanilla_call [OF v f l'])
  show ?thesis using vanilla locality by (rule conjI)
qed

section \<open>Properties of the attention layer\<close>

lemma dot_scale_right: "dot k (map (\<lambda>x. x / c) q) = dot k q / c"
proof (induction k arbitrary: q)
  case Nil
  show ?case by (simp add: dot_def)
next
  case (Cons a k)
  show ?case
  proof (cases q)
    case Nil
    then show ?thesis by (simp add: dot_def)
  next
    case (Cons b q')
    with Cons.IH [of q'] show ?thesis
      by (simp add: dot_def add_divide_distrib)
  qed
qed

text \<open>Scaling every query before the dot product is scaling every score.\<close>

lemma einsum_dot_product_scale:
  "einsum_dot_product key (map (map (map (\<lambda>x. x / t))) query)
     = map (map (map (\<lambda>x. x / t))) (einsum_dot_product key query)"
  by (simp add: einsum_dot_product_def zip_map2 dot_scale_right comp_def case_prod_unfold)

lemma compute_attention_variable:
  "getattr self ''trainable'' = Inr (FloatV t) \<Longrightarrow>
   compute_attention self ms dl q k v m tr = Inr (scaled_dot_product_attention t ms dl q k v m tr)"
  by (simp add: compute_attention_def scaled_dot_product_attention_def res_bind_def
      einsum_dot_product_scale Let_def)

text \<open>With the truth value \<open>True\<close> in the attribute, the queries and the scores keep their scale.\<close>

lemma compute_attention_true:
  "getattr self ''trainable'' = Inr (BoolV True) \<Longrightarrow>
   compute_attention self ms dl q k v m tr = Inr (scaled_dot_product_attention 1 ms dl q k v m tr)"
  by (simp add: compute_attention_def scaled_dot_product_attention_def res_bind_def Let_def)

text \<open>
  Where the setter keeps the assigned object, a constructed locality attention layer
  holds one scalar, whatever its number of heads, with the initial value sqrt(key_dim).
  Its attention is the standard scaled dot-product attention with that scalar as
  the scale of the scores of every head: at construction the scale is sqrt(key_dim), and
  once the scalar has been trained to another value, the scale is that value.
\<close>

lemma locality_attention_store_value:
  assumes "multiheadattention_init store_value num_heads key_dim dropout = Inr self"
    and "0 < key_dim" and "temperature \<noteq> 0"
  shows "getattr self ''trainable'' = Inr (FloatV (sqrt (of_int key_dim)))
    \<and> compute_attention self masked_sm dropout_layer query key val attention_mask training
        = Inr (scaled_dot_product_attention (sqrt (of_int key_dim)) masked_sm dropout_layer
                 query key val attention_mask training)
    \<and> compute_attention (AList.update ''trainable'' (FloatV temperature) self)
          masked_sm dropout_layer query key val attention_mask training
        = Inr (scaled_dot_product_attention temperature masked_sm dropout_layer
                 query key val attention_mask training)"
proof -
  have a: "getattr self ''trainable'' = Inr (FloatV (sqrt (of_int key_dim)))"
    using assms(1,2) by (auto simp add: multiheadattention_init_def store_value_def getattr_def)
  have c: "getattr (AList.update ''trainable'' (FloatV temperature) self) ''trainable''
             = Inr (FloatV temperature)"
    by (simp add: getattr_def update_conv')
  show ?thesis
    by (simp add: a compute_attention_variable [OF a] compute_attention_variable [OF c])
qed

text \<open>
  Where the setter keeps the truth value, a constructed layer with a positive key
  dimension holds \<open>True\<close>, and its attention is the dot-product attention with the
  scores left as they are.
\<close>

lemma locality_attention_store_bool:
  assumes "multiheadattention_init store_bool num_heads key_dim dropout = Inr self"
    and "0 < key_dim"
  shows "getattr self ''trainable'' = Inr (BoolV True)
    \<and> compute_attention self masked_sm dropout_layer query key val attention_mask training
        = Inr (scaled_dot_product_attention 1 masked_sm dropout_layer
                 query key val attention_mask training)"
proof -
  have a: "getattr self ''trainable'' = Inr (BoolV True)"
    using assms by (auto simp add: multiheadattention_init_def store_bool_def getattr_def)
  show ?thesis
    by (simp add: a compute_attention_true [OF a])
qed

lemma softmax_pair: "softmax [a, b] = [exp a / (exp a + exp b), exp b / (exp a + exp b)]"
  by (simp add: softmax_def Let_def)

text \<open>
  Claim C6. The claim has every layer hold a temperature, sqrt(key_dim) at
  construction, and multiply every query by its inverse. On a runtime whose setter of
  \<^verbatim>\<open>trainable\<close> keeps the truth value, the layer constructed with one head and key
  dimension 4 holds \<open>True\<close> and no temperature, and the queries are multiplied by 1:
  for the query (2, 0, 0, 0) and the keys (1, 0, 0, 0) and (0, 0, 0, 0) the code
  normalises the scores 2 and 0, where the claim has the scores 1 and 0 after the
  division by sqrt 4. Where the setter keeps the assigned variable the code does as
  the claim says.
\<close>

theorem multiheadattention_trainable_truth_value:
  "res_bind (multiheadattention_init store_bool 1 4 (1 / 10))
       (\<lambda>self. getattr self ''trainable'')
     = Inr (BoolV True)
   \<and> res_bind (multiheadattention_init store_bool 1 4 (1 / 10))
       (\<lambda>self. compute_attention self masked_softmax (\<lambda>x training. x)
          [[[2, 0, 0, 0]]] [[[1, 0, 0, 0], [0, 0, 0, 0]]] [[[1, 0, 0, 0], [0, 0, 0, 0]]]
          None False)
     = Inr ([[[exp 2 / (exp 2 + 1), 0, 0, 0]]], [[[exp 2 / (exp 2 + 1), 1 / (exp 2 + 1)]]])
   \<and> scaled_dot_product_attention (sqrt 4) masked_softmax (\<lambda>x training. x)
          [[[2, 0, 0, 0]]] [[[1, 0, 0, 0], [0, 0, 0, 0]]] [[[1, 0, 0, 0], [0, 0, 0, 0]]]
          None False
     = ([[[exp 1 / (exp 1 + 1), 0, 0, 0]]], [[[exp 1 / (exp 1 + 1), 1 / (exp 1 + 1)]]])
   \<and> 1 / (exp 2 + 1) \<noteq> 1 / (exp 1 + (1::real))"
proof -
  obtain self where c: "multiheadattention_init store_bool 1 4 (1 / 10) = Inr self"
    by (simp add: multiheadattention_init_def)
  have t: "getattr self ''trainable'' = Inr (BoolV True)"
    using c by (auto simp add: multiheadattention_init_def store_bool_def getattr_def)
  have spec: "scaled_dot_product_attention s masked_softmax (\<lambda>x training. x)
          [[[2, 0, 0, 0]]] [[[1, 0, 0, 0], [0, 0, 0, 0]]] [[[1, 0, 0, 0], [0, 0, 0, 0]]]
          None False
     = ([[[exp (2 / s) / (exp (2 / s) + 1), 0, 0, 0]]],
        [[[exp (2 / s) / (exp (2 / s) + 1), 1 / (exp (2 / s) + 1)]]])" for s :: real
    by (simp add: scaled_dot_product_attention_def einsum_dot_product_def einsum_combine_def
        dot_def masked_softmax_def masked_softmax_matrix_def softmax_pair Let_def
        transpose.simps)
  have code: "compute_attention self masked_softmax (\<lambda>x training. x)
          [[[2, 0, 0, 0]]] [[[1, 0, 0, 0], [0, 0, 0, 0]]] [[[1, 0, 0, 0], [0, 0, 0, 0]]]
          None False
     = Inr ([[[exp 2 / (exp 2 + 1), 0, 0, 0]]], [[[exp 2 / (exp 2 + 1), 1 / (exp 2 + 1)]]])"
    using spec [of 1] by (simp add: compute_attention_true [OF t])
  have differ: "1 / (exp 2 + 1) \<noteq> 1 / (exp 1 + (1::real))"
    by simp
  show ?thesis
    using t code spec [of "sqrt 4"] differ
    unfolding c res_bind_def sum.case by simp
qed

section \<open>Properties of the diagonal mask\<close>

lemma cast_int8_simps: "cast_int8 0 = 0" "cast_int8 1 = 1"
  by (simp_all add: cast_int8_def)

lemma diag_attn_mask_eq:
  "diag_attn_mask n = [map (\<lambda>i. map (\<lambda>j. if i = j then 0 else 1) [0..<n]) [0..<n]]"
  by (simp add: diag_attn_mask_def eye_def comp_def cast_int8_simps if_distrib cong: if_cong)

lemma masked_weights:
  assumes "length s = n"
  shows "map2 (\<lambda>x (b::8 word). if b = 0 then 0 else exp x) s
             (map (\<lambda>j. if i = j then 0 else 1) [0..<n])
           = map (\<lambda>j. if j = i then 0 else exp (s ! j)) [0..<n]"
  using assms by (intro nth_equalityI) auto

lemma masked_total:
  "sum_list (map (\<lambda>j. if j = i then 0 else exp (s ! j)) [0..<n])
     = (\<Sum>j\<in>{0..<n} - {i}. exp (s ! j :: real))"
proof -
  have "sum_list (map (\<lambda>j. if j = i then 0 else exp (s ! j)) [0..<n])
          = (\<Sum>j\<in>{0..<n}. if j = i then 0 else exp (s ! j))"
    by (simp add: interv_sum_list_conv_sum_set_nat)
  also have "\<dots> = (\<Sum>j\<in>{0..<n} - {i}. exp (s ! j))"
    by (rule sum.mono_neutral_cong_right) auto
  finally show ?thesis .
qed

text \<open>With two positions or more, some position other than \<open>i\<close> carries weight.\<close>

lemma masked_total_pos:
  assumes "2 \<le> n"
  shows "0 < (\<Sum>j\<in>{0..<n} - {i}. exp (s ! j :: real))"
proof (rule sum_pos)
  show "finite ({0..<n} - {i})" by simp
  have "0 \<in> {0..<n} - {i} \<or> 1 \<in> {0..<n} - {i}" using assms by auto
  then show "{0..<n} - {i} \<noteq> {}" by blast
qed simp

lemma masked_softmax_row_diag:
  assumes "length s = n" and "2 \<le> n"
  shows "masked_softmax_row s (map (\<lambda>j. if i = j then 0 else 1) [0..<n])
           = map (\<lambda>j. (if j = i then 0 else exp (s ! j)) / (\<Sum>k\<in>{0..<n} - {i}. exp (s ! k)))
               [0..<n]"
  using masked_total_pos [OF assms(2), where i = i and s = s]
  by (simp add: masked_softmax_row_def masked_weights [OF assms(1)] masked_total comp_def Let_def)

lemma off_diagonal_total:
  "sum_list (map (\<lambda>j. f j) (filter (\<lambda>j. j \<noteq> i) [0..<n])) = (\<Sum>j\<in>{0..<n} - {i}. f j :: real)"
proof -
  have "sum_list (map f (filter (\<lambda>j. j \<noteq> i) [0..<n]))
          = sum f (set (filter (\<lambda>j. j \<noteq> i) [0..<n]))"
    by (rule sum_list_distinct_conv_sum_set) simp
  also have "set (filter (\<lambda>j. j \<noteq> i) [0..<n]) = {0..<n} - {i}" by auto
  finally show ?thesis .
qed

lemma masked_softmax_matrix_row:
  assumes "length scores = n" and "i < n"
  shows "masked_softmax_matrix scores (Some (diag_attn_mask n ! 0)) ! i
           = masked_softmax_row (scores ! i) (map (\<lambda>j. if i = j then 0 else 1) [0..<n])"
  using assms by (simp add: masked_softmax_matrix_def diag_attn_mask_eq)

lemma diag_mask_row_distribution:
  assumes "2 \<le> n" and "length scores = n" and "\<forall>row\<in>set scores. length row = n" and "i < n"
  shows "diagonal_probability (masked_softmax_matrix scores (Some (diag_attn_mask n ! 0))) i = 0
       \<and> off_diagonal_sum (masked_softmax_matrix scores (Some (diag_attn_mask n ! 0))) i = 1"
proof -
  let ?s = "scores ! i"
  let ?z = "\<Sum>k\<in>{0..<n} - {i}. exp (?s ! k)"
  have len: "length ?s = n" using assms by simp
  have row: "masked_softmax_matrix scores (Some (diag_attn_mask n ! 0)) ! i
               = map (\<lambda>j. (if j = i then 0 else exp (?s ! j)) / ?z) [0..<n]"
    by (simp only: masked_softmax_matrix_row [OF assms(2,4)]
        masked_softmax_row_diag [OF len assms(1)])
  have z: "0 < ?z" by (rule masked_total_pos [OF assms(1)])
  have d: "diagonal_probability (masked_softmax_matrix scores (Some (diag_attn_mask n ! 0))) i = 0"
    using assms(4) by (simp add: diagonal_probability_def row)
  have "off_diagonal_sum (masked_softmax_matrix scores (Some (diag_attn_mask n ! 0))) i
          = (\<Sum>j\<in>{0..<n} - {i}. map (\<lambda>j. (if j = i then 0 else exp (?s ! j)) / ?z) [0..<n] ! j)"
    by (simp add: off_diagonal_sum_def row off_diagonal_total)
  also have "\<dots> = (\<Sum>j\<in>{0..<n} - {i}. exp (?s ! j) / ?z)"
    by (rule sum.cong) auto
  also have "\<dots> = ?z / ?z"
    by (simp only: sum_divide_distrib)
  also have "\<dots> = 1" using z by simp
  finally show ?thesis using d by simp
qed

text \<open>
  Claim C5, as amended. For every number of patches the mask is one square matrix with
  zero on the diagonal and one everywhere else. For two patches or more and every
  square matrix of attention scores, the masked normalisation gives each query
  probability 0 at its own key position, and its probabilities at the other key
  positions sum to 1.
\<close>

theorem diag_attn_mask_excludes_self:
  assumes "i < num_patches" and "j < num_patches"
  shows "length (diag_attn_mask num_patches) = 1
    \<and> length (diag_attn_mask num_patches ! 0) = num_patches
    \<and> length (diag_attn_mask num_patches ! 0 ! i) = num_patches
    \<and> diag_attn_mask num_patches ! 0 ! i ! j = (if i = j then 0 else 1)
    \<and> (2 \<le> num_patches \<and> length scores = num_patches
         \<and> (\<forall>row\<in>set scores. length row = num_patches) \<longrightarrow>
        diagonal_probability
          (masked_softmax_matrix scores (Some (diag_attn_mask num_patches ! 0))) i = 0
        \<and> off_diagonal_sum
          (masked_softmax_matrix scores (Some (diag_attn_mask num_patches ! 0))) i = 1)"
  using assms diag_mask_row_distribution [of num_patches scores i]
  by (simp add: diag_attn_mask_eq)

theorem diag_attn_mask_excludes_self_witness:
  "(0::nat) < 2 \<and> (1::nat) < 2
   \<and> diag_attn_mask 2 ! 0 ! 0 ! 1 = 1
   \<and> length [[0, 1], [2, 3 :: real]] = 2
   \<and> diagonal_probability
        (masked_softmax_matrix [[0, 1], [2, 3]] (Some (diag_attn_mask 2 ! 0))) 0 = 0
   \<and> off_diagonal_sum
        (masked_softmax_matrix [[0, 1], [2, 3]] (Some (diag_attn_mask 2 ! 0))) 0 = 1"
  using diag_attn_mask_excludes_self [of 0 2 1 "[[0, 1], [2, 3]]"]
  by simp

text \<open>
  Claim C5 as stated fails for a single patch: the only key position of the only query
  is its own, so no probabilities remain that could sum to 1.
\<close>

theorem single_patch_mask_counterexample:
  "\<not> (diagonal_probability (masked_softmax_matrix [[0]] (Some (diag_attn_mask 1 ! 0))) 0 = 0
     \<and> off_diagonal_sum (masked_softmax_matrix [[0]] (Some (diag_attn_mask 1 ! 0))) 0 = 1)"
  by (simp add: diag_attn_mask_eq masked_softmax_matrix_def masked_softmax_row_def softmax_def
      diagonal_probability_def off_diagonal_sum_def)

section \<open>Properties of the encoder block\<close>

lemma layer_normalization_example:
  "layer_normalization [[1, -1]]
     = [[1 / sqrt (1000001 / 1000000), - 1 / sqrt (1000001 / 1000000)]]"
  by (simp add: layer_normalization_def layer_norm_row_def numeral_2_eq_2)

text \<open>The output of the block is the same for every feed-forward network.\<close>

lemma encoder_block_ignores_feed_forward:
  "encoder_block ln1 attention ln2 ff enc = encoder_block ln1 attention ln2 ff' enc"
  by (simp add: encoder_block_def Let_def)

lemma encoder_block_eq:
  "encoder_block ln1 attention ln2 ff enc =
     res_bind (add_layer (attention (ln1 enc) (ln1 enc)) enc) (\<lambda>x2. add_layer (ln2 x2) x2)"
  by (simp add: encoder_block_def Let_def)

text \<open>
  Claim C1. The claim has the block output the feed-forward output plus the first
  residual, so that with attention and feed-forward both zero the block is the
  identity. The code adds the normalised residual instead: for the one-token input
  [[1, -1]], with an attention and a two-layer feed-forward network that output zeros
  and freshly initialised normalisations, the block of the specification returns the
  input and the code returns [[1 + 1 / sqrt 1.000001, -1 - 1 / sqrt 1.000001]].
\<close>

theorem encoder_block_zero_branches:
  "encoder_block layer_normalization (\<lambda>query val. zeros_like query)
       layer_normalization (\<lambda>x. mlp x [zeros_like, zeros_like] (\<lambda>y. y)) [[1, -1]]
     = Inr [[1 / sqrt (1000001 / 1000000) + 1, - 1 / sqrt (1000001 / 1000000) - 1]]
   \<and> encoder_block layer_normalization (\<lambda>query val. zeros_like query)
       layer_normalization (\<lambda>x. mlp x [zeros_like, zeros_like] (\<lambda>y. y)) [[1, -1]]
     \<noteq> Inr [[1, -1]]
   \<and> spec_encoder_block layer_normalization (\<lambda>query val. zeros_like query)
       layer_normalization (\<lambda>x. mlp x [zeros_like, zeros_like] (\<lambda>y. y)) [[1, -1]]
     = Inr [[1, -1]]"
  by (simp add: encoder_block_eq spec_encoder_block_def layer_normalization_example
      mlp_def zeros_like_def add_layer_def res_bind_def)

end
